theory Spec2Isabelle
  imports Complex_Main "HOL-Library.List_Lexorder"
begin

section \<open>Conventions of the embedding\<close>

text \<open>
  The add-ons are Python scripts running inside Blender. Python floats are modelled as
  real numbers: arithmetic is exact and the values \<open>inf\<close> and \<open>nan\<close> are not
  represented. The literal \<open>1e-12\<close> is the real \<open>1 / 10 ^ 12\<close>. A text file is the list of
  its lines as the iteration \<open>for line in f\<close> delivers them; the file system is a partial
  map from paths to such lists, \<open>None\<close> where \<open>os.path.isfile\<close> is false. Strings are byte
  lists; the white space of \<open>str.strip\<close>, \<open>str.split\<close> and the regular expression class
  \<open>\s\<close> is the ASCII part of Python's.

  The builtin \<open>float\<close> is a parameter \<open>flt\<close> of every parser (\<open>None\<close> where Python raises
  ValueError), so that the theorems hold for every reading of numeric tokens;
  \<open>dec_float\<close> below is the plain decimal fragment of it, used at concrete inputs.
\<close>

datatype error =
    RuntimeError string
  | ValueError string
  | IndexError
  | StopIteration

type_synonym filesystem = "string \<Rightarrow> string list option"

section \<open>Python string primitives\<close>

definition is_space :: "char \<Rightarrow> bool" where
  "is_space c \<longleftrightarrow> c \<in> {CHR '' '', CHR 0x09, CHR 0x0A, CHR 0x0B, CHR 0x0C, CHR 0x0D,
                         CHR 0x1C, CHR 0x1D, CHR 0x1E, CHR 0x1F}"

definition py_strip :: "string \<Rightarrow> string" where
  "py_strip s = rev (dropWhile is_space (rev (dropWhile is_space s)))"

definition startswith :: "string \<Rightarrow> string \<Rightarrow> bool" where
  "startswith s p \<longleftrightarrow> take (length p) s = p"

text \<open>\<open>split_on P s\<close> cuts \<open>s\<close> at every character satisfying \<open>P\<close>; \<open>s.split(",")\<close> and
  \<open>s.split("\t")\<close> are instances, and always return at least one part.\<close>

fun split_on :: "(char \<Rightarrow> bool) \<Rightarrow> string \<Rightarrow> string list" where
  "split_on P [] = [[]]"
| "split_on P (c # cs) =
     (if P c then [] # split_on P cs
      else (case split_on P cs of
              [] \<Rightarrow> [[c]]
            | p # ps \<Rightarrow> (c # p) # ps))"

definition split_char :: "char \<Rightarrow> string \<Rightarrow> string list" where
  "split_char d s = split_on (\<lambda>c. c = d) s"

text \<open>\<open>s.split()\<close>: runs of white space separate, empty parts are dropped.\<close>

definition split_ws :: "string \<Rightarrow> string list" where
  "split_ws s = filter (\<lambda>p. p \<noteq> []) (split_on is_space s)"

text \<open>\<open>re.split(r"[,\s]+", s)\<close>: a maximal run of commas and white space is one separator;
  a separator at the very start or end leaves an empty first or last part.\<close>

definition re_split :: "string \<Rightarrow> string list" where
  "re_split s =
     (case split_on (\<lambda>c. c = CHR '','' \<or> is_space c) s of
        [] \<Rightarrow> []
      | [p] \<Rightarrow> [p]
      | p # ps \<Rightarrow> p # filter (\<lambda>x. x \<noteq> []) (butlast ps) @ [last ps])"

subsection \<open>Decimal numerals\<close>

definition digit_char :: "nat \<Rightarrow> char" where
  "digit_char d = char_of (48 + d)"

fun str_nat :: "nat \<Rightarrow> string" where
  "str_nat n = (if n < 10 then [digit_char n] else str_nat (n div 10) @ [digit_char (n mod 10)])"

declare str_nat.simps [simp del]

text \<open>\<open>f"{i:0wd}"\<close> for a non-negative \<open>i\<close>: zero padding on the left up to width \<open>w\<close>.\<close>

definition zfill :: "nat \<Rightarrow> string \<Rightarrow> string" where
  "zfill w s = replicate (w - length s) CHR ''0'' @ s"

definition is_digit :: "char \<Rightarrow> bool" where
  "is_digit c \<longleftrightarrow> 48 \<le> (of_char c :: nat) \<and> (of_char c :: nat) \<le> 57"

definition digits_val :: "string \<Rightarrow> nat" where
  "digits_val s = foldl (\<lambda>acc c. 10 * acc + ((of_char c :: nat) - 48)) 0 s"

text \<open>The decimal fragment of \<open>float(x)\<close>: surrounding white space, an optional sign,
  digits with an optional point, at least one digit.\<close>

definition dec_float :: "string \<Rightarrow> real option" where
  "dec_float x =
     (let s = py_strip x;
          neg = (s \<noteq> [] \<and> hd s = CHR ''-'');
          body = (if s \<noteq> [] \<and> (hd s = CHR ''-'' \<or> hd s = CHR ''+'') then tl s else s);
          ip = takeWhile (\<lambda>c. c \<noteq> CHR ''.'') body;
          fp = drop (Suc (length ip)) body
      in if (ip = [] \<and> fp = []) \<or> \<not> list_all is_digit ip \<or> \<not> list_all is_digit fp
         then None
         else Some ((if neg then - 1 else 1) *
                    (real (digits_val ip) + real (digits_val fp) / 10 ^ length fp)))"

section \<open>Trajectory parser (dual_joint_trajectory_replay_addon.py)\<close>

text \<open>The dictionary \<open>{'t': times, 'q': joints}\<close>; the fields carry the names
  \<open>sample_q\<close> gives them.\<close>

record traj =
  ts :: "real list"
  qs :: "real list list"

text \<open>The delimiter and time-unit arguments are the items of the add-on's enum
  properties; the parser treats every string other than COMMA, TAB and SPACE as AUTO and
  every string other than MILLISECONDS as seconds.\<close>

datatype delim_mode = AUTO | SPACE | COMMA | TAB

datatype time_unit = SECONDS | MILLISECONDS

definition split_line :: "delim_mode \<Rightarrow> string \<Rightarrow> string list" where
  "split_line delim_mode s =
     (case delim_mode of
        COMMA \<Rightarrow> split_char CHR '','' s
      | TAB \<Rightarrow> split_char CHR 0x09 s
      | SPACE \<Rightarrow> split_ws s
      | AUTO \<Rightarrow> (if CHR '','' \<in> set s then split_char CHR '','' s
                 else if CHR 0x09 \<in> set s then split_char CHR 0x09 s
                 else split_ws s))"

definition radians :: "real \<Rightarrow> real" where
  "radians v = v * pi / 180"

declare radians_def [code del]

definition eps12 :: real where
  "eps12 = 1 / 10 ^ 12"

text \<open>The reading loop of \<open>parse_single_arm\<close>. The flag \<open>header_skipped\<close> is the loop's
  variable; the result is the pair \<open>(times, joints)\<close> in file order, or the first error.\<close>

fun read_rows ::
  "(string \<Rightarrow> real option) \<Rightarrow> delim_mode \<Rightarrow> time_unit \<Rightarrow> bool \<Rightarrow> bool \<Rightarrow> bool \<Rightarrow>
   string list \<Rightarrow> error + (real list \<times> real list list)" where
  "read_rows flt delim_mode time_unit has_header degrees header_skipped [] = Inr ([], [])"
| "read_rows flt delim_mode time_unit has_header degrees header_skipped (line # rest) =
     (let s = py_strip line in
      if s = [] \<or> startswith s ''#'' then
        read_rows flt delim_mode time_unit has_header degrees header_skipped rest
      else if has_header \<and> \<not> header_skipped then
        read_rows flt delim_mode time_unit has_header degrees True rest
      else
        (case those (map flt (split_line delim_mode s)) of
           None \<Rightarrow> Inl (RuntimeError (''Non-numeric data in line: '' @ line))
         | Some vals \<Rightarrow>
             if length vals < 15 then
               Inl (RuntimeError (''Expected 15 numbers (t + 7 pos + 7 vel). Got '' @
                                  str_nat (length vals)))
             else
               (let t = hd vals * (if time_unit = MILLISECONDS then 1 / 1000 else 1);
                    qpos = take 7 (drop 1 vals);
                    qpos = (if degrees then map radians qpos else qpos)
                in case read_rows flt delim_mode time_unit has_header degrees
                          header_skipped rest of
                     Inl e \<Rightarrow> Inl e
                   | Inr (times', joints) \<Rightarrow> Inr (t # times', qpos # joints))))"

text \<open>One turn of the loop under the comment \<open># sort & dedup\<close>.\<close>

definition dedup_step :: "real \<times> real list \<Rightarrow> real list \<times> real list list \<Rightarrow> real list \<times> real list list" where
  "dedup_step p acc =
     (case (p, acc) of ((t, q), (times', joints)) \<Rightarrow>
        if times' \<noteq> [] \<and> \<bar>t - last times'\<bar> < eps12
        then (butlast times' @ [t], butlast joints @ [q])
        else (times' @ [t], joints @ [q]))"

definition sort_dedup :: "real list \<times> real list list \<Rightarrow> traj" where
  "sort_dedup tj =
     (case tj of (times', joints) \<Rightarrow>
        (let pairs = sort_key fst (zip times' joints);
             r = fold dedup_step pairs ([], [])
         in \<lparr>ts = fst r, qs = snd r\<rparr>))"

definition parse_single_arm ::
  "(string \<Rightarrow> real option) \<Rightarrow> filesystem \<Rightarrow> string \<Rightarrow> delim_mode \<Rightarrow> time_unit \<Rightarrow> bool \<Rightarrow> bool \<Rightarrow>
   error + traj" where
  "parse_single_arm flt fs filepath delim_mode time_unit has_header degrees =
     (case fs filepath of
        None \<Rightarrow> Inl (RuntimeError (''File not found: '' @ filepath))
      | Some lines \<Rightarrow>
          (case read_rows flt delim_mode time_unit has_header degrees False lines of
             Inl e \<Rightarrow> Inl e
           | Inr (times', joints) \<Rightarrow>
               if times' = [] then Inl (RuntimeError ''No valid data rows found.'')
               else Inr (sort_dedup (times', joints))))"

section \<open>Scrub sampler\<close>

text \<open>\<open>bisect.bisect_left(a, x)\<close> of the standard library: the binary search loop.\<close>

function bisect_loop :: "real list \<Rightarrow> real \<Rightarrow> nat \<Rightarrow> nat \<Rightarrow> nat" where
  "bisect_loop a x lo hi =
     (if lo < hi then
        (let mid = (lo + hi) div 2 in
         if a ! mid < x then bisect_loop a x (mid + 1) hi else bisect_loop a x lo mid)
      else lo)"
  by pat_completeness auto
termination
  by (relation "measure (\<lambda>(a, x, lo, hi). hi - lo)") auto

declare bisect_loop.simps [simp del]

definition bisect_left :: "real list \<Rightarrow> real \<Rightarrow> nat" where
  "bisect_left a x = bisect_loop a x 0 (length a)"

text \<open>Python indexing \<open>xs[i]\<close>: a negative index counts from the end, an index out of
  range raises IndexError.\<close>

definition py_get :: "'a list \<Rightarrow> int \<Rightarrow> error + 'a" where
  "py_get xs i =
     (if 0 \<le> i \<and> i < int (length xs) then Inr (xs ! nat i)
      else if i < 0 \<and> - int (length xs) \<le> i then Inr (xs ! nat (int (length xs) + i))
      else Inl IndexError)"

definition sample_q :: "traj \<Rightarrow> real \<Rightarrow> error + real list" where
  "sample_q traj t =
     (case py_get (ts traj) 0 of
        Inl e \<Rightarrow> Inl e
      | Inr first \<Rightarrow>
          if t \<le> first then py_get (qs traj) 0
          else if t \<ge> last (ts traj) then py_get (qs traj) (- 1)
          else
            (let i = int (bisect_left (ts traj) t) in
             case (py_get (ts traj) (i - 1), py_get (ts traj) i,
                   py_get (qs traj) (i - 1), py_get (qs traj) i) of
               (Inr t0, Inr t1, Inr q0, Inr q1) \<Rightarrow>
                 if t1 \<le> t0 + eps12 then Inr q1
                 else (let r = (t - t0) / (t1 - t0)
                       in Inr (map (\<lambda>(a, b). (1 - r) * a + r * b) (zip q0 q1)))
             | _ \<Rightarrow> Inl IndexError))"

section \<open>Scrub orchestration and the load operators\<close>

text \<open>\<open>f"{x:.kf}"\<close>: the sign, then the magnitude rounded to \<open>k\<close> decimals, ties to even.\<close>

definition round_half_even :: "real \<Rightarrow> int" where
  "round_half_even x =
     (let f = \<lfloor>x\<rfloor>; d = x - of_int f
      in if d < 1 / 2 then f else if 1 / 2 < d then f + 1 else if even f then f else f + 1)"

definition fmt_fixed :: "nat \<Rightarrow> real \<Rightarrow> string" where
  "fmt_fixed k x =
     (let n = nat (round_half_even (\<bar>x\<bar> * 10 ^ k))
      in (if x < 0 then ''-'' else []) @ str_nat (n div 10 ^ k) @ ''.'' @
         zfill k (str_nat (n mod 10 ^ k)))"

text \<open>The scene properties the modelled code reads and writes.\<close>

record scene =
  sa_folder_a :: string
  sa_folder_b :: string
  da_common_filename :: string
  da_delim :: delim_mode
  sa_time_unit :: time_unit
  sa_has_header :: bool
  sa_degrees :: bool
  sa_scrub :: real
  sa_time :: real
  da_tcp_filename :: string
  tcp_column_major :: bool
  tcp_step :: nat

datatype arm = A | B

text \<open>The module globals \<open>TRAJ_A\<close>, \<open>TRAJ_B\<close> and \<open>ARMREFS\<close>, the scene, and the rig of
  the host editor. A cache entry of \<open>ARMREFS\<close> and the rig are values of the host
  (\<open>'c\<close> and \<open>'r\<close>).\<close>

record ('c, 'r) session =
  TRAJ_A :: "traj option"
  TRAJ_B :: "traj option"
  ARMREFS :: "arm \<Rightarrow> 'c option"
  scn :: scene
  rig :: 'r

text \<open>The host side of \<open>apply_pose_from_scrub\<close> for one arm: \<open>ensure_arm_refs\<close> followed
  by the assignment of the sampled angles to the bones. It reads and writes that arm's
  cache entry and the rig.\<close>

type_synonym ('c, 'r) pose_rig =
  "arm \<Rightarrow> scene \<Rightarrow> real list \<Rightarrow> 'c option \<times> 'r \<Rightarrow> 'c option \<times> 'r"

definition traj_ends :: "traj option \<Rightarrow> error + (real \<times> real) list" where
  "traj_ends tr =
     (case tr of
        None \<Rightarrow> Inr []
      | Some T \<Rightarrow> (case (py_get (ts T) 0, py_get (ts T) (- 1)) of
                    (Inr lo, Inr hi) \<Rightarrow> Inr [(lo, hi)]
                  | _ \<Rightarrow> Inl IndexError))"

definition global_time_range :: "traj option \<Rightarrow> traj option \<Rightarrow> error + (real \<times> real)" where
  "global_time_range ta tb =
     (case (traj_ends ta, traj_ends tb) of
        (Inr ea, Inr eb) \<Rightarrow>
          (let tmins = map fst (ea @ eb); tmaxs = map snd (ea @ eb)
           in if tmins = [] then Inr (0, 1)
              else Inr (Min (set tmins), Max (set tmaxs)))
      | _ \<Rightarrow> Inl IndexError)"

definition scrub_time :: "real \<Rightarrow> real \<times> real \<Rightarrow> real" where
  "scrub_time scrub r = (case r of (t0, t1) \<Rightarrow> t0 + scrub * max (t1 - t0) (1 / 10 ^ 9))"

definition pose_one ::
  "('c, 'r) pose_rig \<Rightarrow> arm \<Rightarrow> traj option \<Rightarrow> real \<Rightarrow> ('c, 'r) session \<Rightarrow>
   (error + unit) \<times> ('c, 'r) session" where
  "pose_one host which tr t st =
     (case tr of
        None \<Rightarrow> (Inr (), st)
      | Some T \<Rightarrow>
          (case sample_q T t of
             Inl e \<Rightarrow> (Inl e, st)
           | Inr qa \<Rightarrow>
               (case host which (scn st) qa (ARMREFS st which, rig st) of
                  (c, r) \<Rightarrow> (Inr (), st\<lparr>ARMREFS := (ARMREFS st)(which := c), rig := r\<rparr>))))"

text \<open>The result of an action is what it returns or the exception that leaves it,
  together with the state it leaves behind.\<close>

definition apply_pose_from_scrub ::
  "('c, 'r) pose_rig \<Rightarrow> ('c, 'r) session \<Rightarrow> (error + unit) \<times> ('c, 'r) session" where
  "apply_pose_from_scrub host st =
     (case global_time_range (TRAJ_A st) (TRAJ_B st) of
        Inl e \<Rightarrow> (Inl e, st)
      | Inr r \<Rightarrow>
          (let t = scrub_time (sa_scrub (scn st)) r;
               st1 = st\<lparr>scn := (scn st)\<lparr>sa_time := t\<rparr>\<rparr>
           in case pose_one host A (TRAJ_A st1) t st1 of
                (Inl e, st2) \<Rightarrow> (Inl e, st2)
              | (Inr u, st2) \<Rightarrow> pose_one host B (TRAJ_B st2) t st2))"

text \<open>\<open>os.path.join\<close> of two components (POSIX).\<close>

definition path_join :: "string \<Rightarrow> string \<Rightarrow> string" where
  "path_join a b =
     (if startswith b ''/'' then b
      else if a = [] \<or> last a = CHR ''/'' then a @ b
      else a @ ''/'' @ b)"

datatype status = FINISHED | CANCELLED

datatype level = INFO | WARNING | ERROR

type_synonym report = "level \<times> string"

text \<open>\<open>str(e)\<close> of the exceptions the model raises.\<close>

fun str_error :: "error \<Rightarrow> string" where
  "str_error (RuntimeError m) = m"
| "str_error (ValueError m) = m"
| "str_error IndexError = ''list index out of range''"
| "str_error StopIteration = []"

definition load_report :: "string \<Rightarrow> traj \<Rightarrow> error + report" where
  "load_report tag T =
     (case (py_get (ts T) (- 1), py_get (ts T) 0) of
        (Inr hi, Inr lo) \<Rightarrow>
          Inr (INFO, tag @ '': '' @ str_nat (length (ts T)) @ '' samples ('' @
                     fmt_fixed 3 (hi - lo) @ ''s)'')
      | _ \<Rightarrow> Inl IndexError)"

text \<open>\<open>SA_OT_load_a.execute\<close> and \<open>SA_OT_load_b.execute\<close>. The result lists the reports
  made and gives the returned status, or the exception that escapes.\<close>

definition load_a_execute ::
  "(string \<Rightarrow> real option) \<Rightarrow> filesystem \<Rightarrow> ('c, 'r) pose_rig \<Rightarrow> ('c, 'r) session \<Rightarrow>
   (report list \<times> (error + status)) \<times> ('c, 'r) session" where
  "load_a_execute flt fs host st =
     (let sc = scn st;
          folder = sa_folder_a sc;
          path = (if da_common_filename sc \<noteq> [] then path_join folder (da_common_filename sc)
                  else [])
      in if path = [] then
           (([(ERROR, ''Arm A: set folder and filename first'')], Inr CANCELLED), st)
         else
           (case parse_single_arm flt fs path (da_delim sc) (sa_time_unit sc)
                   (sa_has_header sc) (sa_degrees sc) of
              Inl e \<Rightarrow> (([(ERROR, ''A: '' @ str_error e)], Inr CANCELLED), st)
            | Inr T \<Rightarrow>
                (let st1 = st\<lparr>TRAJ_A := Some T\<rparr>;
                     st2 = st1\<lparr>ARMREFS := (ARMREFS st1)(A := None)\<rparr>
                 in case load_report ''A'' T of
                      Inl e \<Rightarrow> (([], Inl e), st2)
                    | Inr rep \<Rightarrow>
                        (case apply_pose_from_scrub host st2 of
                           (Inl e, st3) \<Rightarrow> (([rep], Inl e), st3)
                         | (Inr u, st3) \<Rightarrow> (([rep], Inr FINISHED), st3)))))"

definition load_b_execute ::
  "(string \<Rightarrow> real option) \<Rightarrow> filesystem \<Rightarrow> ('c, 'r) pose_rig \<Rightarrow> ('c, 'r) session \<Rightarrow>
   (report list \<times> (error + status)) \<times> ('c, 'r) session" where
  "load_b_execute flt fs host st =
     (let sc = scn st;
          folder = sa_folder_b sc;
          path = (if da_common_filename sc \<noteq> [] then path_join folder (da_common_filename sc)
                  else [])
      in if path = [] then
           (([(ERROR, ''Arm B: set folder and filename first'')], Inr CANCELLED), st)
         else
           (case parse_single_arm flt fs path (da_delim sc) (sa_time_unit sc)
                   (sa_has_header sc) (sa_degrees sc) of
              Inl e \<Rightarrow> (([(ERROR, ''B: '' @ str_error e)], Inr CANCELLED), st)
            | Inr T \<Rightarrow>
                (let st1 = st\<lparr>TRAJ_B := Some T\<rparr>;
                     st2 = st1\<lparr>ARMREFS := (ARMREFS st1)(B := None)\<rparr>
                 in case load_report ''B'' T of
                      Inl e \<Rightarrow> (([], Inl e), st2)
                    | Inr rep \<Rightarrow>
                        (case apply_pose_from_scrub host st2 of
                           (Inl e, st3) \<Rightarrow> (([rep], Inl e), st3)
                         | (Inr u, st3) \<Rightarrow> (([rep], Inr FINISHED), st3)))))"

section \<open>TCP markers\<close>

type_synonym point = "real \<times> real \<times> real"

text \<open>The reading loop of \<open>_parse_tcp_positions\<close>; \<open>m\<close> is the slice \<open>vals[1:17]\<close>.\<close>

fun tcp_rows ::
  "(string \<Rightarrow> real option) \<Rightarrow> delim_mode \<Rightarrow> bool \<Rightarrow> bool \<Rightarrow> real \<Rightarrow> bool \<Rightarrow>
   string list \<Rightarrow> error + point list" where
  "tcp_rows flt delim_mode has_header column_major y_offset header_skipped [] = Inr []"
| "tcp_rows flt delim_mode has_header column_major y_offset header_skipped (line # rest) =
     (let s = py_strip line in
      if s = [] \<or> startswith s ''#'' then
        tcp_rows flt delim_mode has_header column_major y_offset header_skipped rest
      else if has_header \<and> \<not> header_skipped then
        tcp_rows flt delim_mode has_header column_major y_offset True rest
      else
        (case those (map flt (split_line delim_mode s)) of
           None \<Rightarrow> Inl (RuntimeError (''Non-numeric data in line: '' @ line))
         | Some vals \<Rightarrow>
             if length vals < 17 then
               Inl (RuntimeError (''Expected 17 numbers (t + 16 matrix). Got '' @
                                  str_nat (length vals)))
             else
               (let m = take 16 (drop 1 vals);
                    (x, y, z) = (if column_major then (m ! 12, m ! 13, m ! 14)
                                 else (m ! 3, m ! 7, m ! 11))
                in case tcp_rows flt delim_mode has_header column_major y_offset
                          header_skipped rest of
                     Inl e \<Rightarrow> Inl e
                   | Inr pts \<Rightarrow> Inr ((x, y + y_offset, z) # pts))))"

definition parse_tcp_positions ::
  "(string \<Rightarrow> real option) \<Rightarrow> filesystem \<Rightarrow> string \<Rightarrow> delim_mode \<Rightarrow> bool \<Rightarrow> bool \<Rightarrow> real \<Rightarrow>
   error + point list" where
  "parse_tcp_positions flt fs filepath delim_mode has_header column_major y_offset =
     (case fs filepath of
        None \<Rightarrow> Inl (RuntimeError (''File not found: '' @ filepath))
      | Some lines \<Rightarrow>
          (case tcp_rows flt delim_mode has_header column_major y_offset False lines of
             Inl e \<Rightarrow> Inl e
           | Inr pts \<Rightarrow>
               if pts = [] then Inl (RuntimeError ''No valid TCP rows found.'')
               else Inr pts))"

text \<open>The slice \<open>pts[::step]\<close> for a positive \<open>step\<close>.\<close>

fun every_nth :: "nat \<Rightarrow> 'a list \<Rightarrow> 'a list" where
  "every_nth step [] = []"
| "every_nth step (x # xs) = x # every_nth step (drop (step - 1) xs)"

text \<open>\<open>SA_OT_tcp_visualize_a.execute\<close> and \<open>SA_OT_tcp_visualize_b.execute\<close>, up to the call
  of \<open>_scatter_tcp_points\<close>: the result carries the points handed to it, one marker being
  placed at each of them.\<close>

definition tcp_visualize_a_execute ::
  "(string \<Rightarrow> real option) \<Rightarrow> filesystem \<Rightarrow> scene \<Rightarrow> report \<times> status \<times> point list" where
  "tcp_visualize_a_execute flt fs sc =
     (let folder = sa_folder_a sc; fname = da_tcp_filename sc
      in if folder = [] \<or> fname = [] then
           ((ERROR, ''Set Arm A folder and TCP filename first''), CANCELLED, [])
         else
           (case parse_tcp_positions flt fs (path_join folder fname) (da_delim sc)
                   (sa_has_header sc) (tcp_column_major sc) (281 / 1000) of
              Inl e \<Rightarrow> ((ERROR, ''TCP A: '' @ str_error e), CANCELLED, [])
            | Inr pts \<Rightarrow>
                (let pts = (if tcp_step sc > 1 then every_nth (tcp_step sc) pts else pts)
                 in ((INFO, ''TCP A: Plotted '' @ str_nat (length pts) @ '' points''),
                     FINISHED, pts))))"

definition tcp_visualize_b_execute ::
  "(string \<Rightarrow> real option) \<Rightarrow> filesystem \<Rightarrow> scene \<Rightarrow> report \<times> status \<times> point list" where
  "tcp_visualize_b_execute flt fs sc =
     (let folder = sa_folder_b sc; fname = da_tcp_filename sc
      in if folder = [] \<or> fname = [] then
           ((ERROR, ''Set Arm B folder and TCP filename first''), CANCELLED, [])
         else
           (case parse_tcp_positions flt fs (path_join folder fname) (da_delim sc)
                   (sa_has_header sc) (tcp_column_major sc) (- (281 / 1000)) of
              Inl e \<Rightarrow> ((ERROR, ''TCP B: '' @ str_error e), CANCELLED, [])
            | Inr pts \<Rightarrow>
                (let pts = (if tcp_step sc > 1 then every_nth (tcp_step sc) pts else pts)
                 in ((INFO, ''TCP B: Plotted '' @ str_nat (length pts) @ '' points''),
                     FINISHED, pts))))"

section \<open>MoveIt scene export (export_objects_to_moveit_scene.py)\<close>

text \<open>What the exporter reads of a selected object: its name, its type, the translation
  and the quaternion of \<open>matrix_world\<close> (components \<open>x y z\<close> and \<open>x y z w\<close>), and its
  dimensions.\<close>

record bobject =
  o_name :: string
  o_type :: string
  o_t :: "real \<times> real \<times> real"
  o_q :: "real \<times> real \<times> real \<times> real"
  o_dims :: "real \<times> real \<times> real"

definition lower_char :: "char \<Rightarrow> char" where
  "lower_char c = (if 65 \<le> (of_char c :: nat) \<and> (of_char c :: nat) \<le> 90
                   then char_of ((of_char c :: nat) + 32) else c)"

definition char_key :: "string \<Rightarrow> nat list" where
  "char_key s = map (\<lambda>c. of_char (lower_char c)) s"

definition f6 :: "real \<Rightarrow> string" where
  "f6 x = fmt_fixed 6 x"

definition export_block :: "bobject \<Rightarrow> string list" where
  "export_block o' =
     (let name = map (\<lambda>c. if c = CHR '' '' then CHR ''_'' else c) (py_strip (o_name o'));
          (tx, ty, tz) = o_t o';
          (qx, qy, qz, qw) = o_q o';
          (dx, dy, dz) = o_dims o'
      in [''* '' @ name,
          f6 tx @ '' '' @ f6 ty @ '' '' @ f6 tz,
          f6 qx @ '' '' @ f6 qy @ '' '' @ f6 qz @ '' '' @ f6 qw,
          ''1'',
          ''box'',
          f6 dx @ '' '' @ f6 dy @ '' '' @ f6 dz,
          ''0 0 0'',
          ''0 0 0 1'',
          ''0 0 0 0'',
          ''0''])"

text \<open>The script from the selection to the list \<open>lines\<close>; \<open>sorted_objs\<close> is the list
  \<open>objs\<close> after \<open>objs.sort(key=lambda o: o.name.lower())\<close>, a stable sort under the
  lexicographic order of the lowered names.\<close>

definition sorted_objs :: "bobject list \<Rightarrow> bobject list" where
  "sorted_objs selected =
     sort_key (\<lambda>o'. char_key (o_name o')) (filter (\<lambda>o'. o_type o' = ''MESH'') selected)"

definition export_lines :: "bobject list \<Rightarrow> error + string list" where
  "export_lines selected =
     (let objs = filter (\<lambda>o'. o_type o' = ''MESH'') selected
      in if objs = [] then
           Inl (RuntimeError ''No MESH objects selected. Select your objects and run again.'')
         else Inr ([''(noname)+''] @ concat (map export_block (sorted_objs selected)) @ [''.'']))"

text \<open>The text written, \<open>"\n".join(lines)\<close>, and the lines a later \<open>for raw in fp\<close> reads
  from it: each ends at a line feed and keeps it.\<close>

definition join_lines :: "string list \<Rightarrow> string" where
  "join_lines ls = (case ls of [] \<Rightarrow> [] | l # rest \<Rightarrow> l @ concat (map (\<lambda>x. CHR 0x0A # x) rest))"

fun read_lines :: "string \<Rightarrow> string list" where
  "read_lines [] = []"
| "read_lines (c # cs) =
     (if c = CHR 0x0A then [c] # read_lines cs
      else (case read_lines cs of
              [] \<Rightarrow> [[c]]
            | l # ls \<Rightarrow> (c # l) # ls))"

section \<open>MoveIt scene import (import_objects_from_moveit_scene.py)\<close>

text \<open>\<open>_unique_name\<close>. The loop \<open>while True\<close> has no bound of its own, so it is a partial
  function: \<open>None\<close> stands for a search that never returns.\<close>

definition suffixed :: "string \<Rightarrow> nat \<Rightarrow> string" where
  "suffixed base i = base @ ''.'' @ zfill 3 (str_nat i)"

partial_function (option) unique_loop :: "string \<Rightarrow> string set \<Rightarrow> nat \<Rightarrow> string option" where
  "unique_loop base existing_names i =
     (if suffixed base i \<notin> existing_names then Some (suffixed base i)
      else unique_loop base existing_names (i + 1))"

declare unique_loop.simps [code]

definition unique_name :: "string \<Rightarrow> string set \<Rightarrow> string option" where
  "unique_name base existing_names =
     (if base \<notin> existing_names then Some base else unique_loop base existing_names 1)"

record entry =
  e_name :: string
  e_pos :: "real list"
  e_quat_xyzw :: "real list"
  e_shape :: string
  e_size :: "real list"

definition nonempty_lines :: "string list \<Rightarrow> string list" where
  "nonempty_lines fp = filter (\<lambda>s. s \<noteq> []) (map py_strip fp)"

definition quoted :: "string \<Rightarrow> string" where
  "quoted p = [CHR 0x27] @ p @ [CHR 0x27]"

text \<open>The list comprehension \<open>[float(p) for p in parts]\<close>: the first token that is not
  numeric raises.\<close>

fun floats :: "(string \<Rightarrow> real option) \<Rightarrow> string list \<Rightarrow> error + real list" where
  "floats flt [] = Inr []"
| "floats flt (p # parts) =
     (case flt p of
        None \<Rightarrow> Inl (ValueError (''could not convert string to float: '' @ quoted p))
      | Some v \<Rightarrow> (case floats flt parts of Inl e \<Rightarrow> Inl e | Inr vs \<Rightarrow> Inr (v # vs)))"

definition parse_floats :: "(string \<Rightarrow> real option) \<Rightarrow> string \<Rightarrow> nat option \<Rightarrow> error + real list" where
  "parse_floats flt line n =
     (case floats flt (re_split (py_strip line)) of
        Inl e \<Rightarrow> Inl e
      | Inr vals \<Rightarrow>
          (case n of
             None \<Rightarrow> Inr vals
           | Some k \<Rightarrow>
               if length vals \<noteq> k then
                 Inl (ValueError (''Expected '' @ str_nat k @ '' floats, got '' @
                                  str_nat (length vals) @ [CHR 0x0A] @ ''Line: '' @ line))
               else Inr vals))"

definition lower_str :: "string \<Rightarrow> string" where
  "lower_str s = map lower_char s"

text \<open>The loop \<open>for line in it\<close> of \<open>_parse_scene_file\<close>. The argument is what the iterator
  still holds; every \<open>next(it)\<close> takes its head and raises StopIteration when there is
  none.\<close>

fun scene_loop :: "(string \<Rightarrow> real option) \<Rightarrow> string list \<Rightarrow> error + entry list" where
  "scene_loop flt [] = Inr []"
| "scene_loop flt (line # it) =
     (if \<not> startswith line ''* '' then scene_loop flt it
      else
        (let name = (if py_strip (drop 2 line) = [] then ''cube'' else py_strip (drop 2 line))
         in case it of
              [] \<Rightarrow> Inl StopIteration
            | l1 # it1 \<Rightarrow>
           (case parse_floats flt l1 (Some 3) of
              Inl e \<Rightarrow> Inl e
            | Inr pos \<Rightarrow>
           (case it1 of
              [] \<Rightarrow> Inl StopIteration
            | l2 # it2 \<Rightarrow>
           (case parse_floats flt l2 (Some 4) of
              Inl e \<Rightarrow> Inl e
            | Inr quat \<Rightarrow>
           (case it2 of
              l3 # l4 # l5 # it5 \<Rightarrow>
                (case parse_floats flt l5 (Some 3) of
                   Inl e \<Rightarrow> Inl e
                 | Inr size' \<Rightarrow>
                (case it5 of
                   l6 # l7 # l8 # l9 # it9 \<Rightarrow>
                     (case scene_loop flt it9 of
                        Inl e \<Rightarrow> Inl e
                      | Inr entries \<Rightarrow>
                          Inr (\<lparr>e_name = name, e_pos = pos, e_quat_xyzw = quat,
                                e_shape = lower_str (py_strip l4), e_size = size'\<rparr> # entries))
                 | _ \<Rightarrow> Inl StopIteration))
            | _ \<Rightarrow> Inl StopIteration))))))"

definition parse_scene_file :: "(string \<Rightarrow> real option) \<Rightarrow> string list \<Rightarrow> error + entry list" where
  "parse_scene_file flt fp =
     (case nonempty_lines fp of
        [] \<Rightarrow> Inr []
      | first # it \<Rightarrow>
          if startswith first ''* '' then scene_loop flt (first # it)
          else scene_loop flt it)"

text \<open>The naming part of \<open>_spawn_cube_unique\<close>: the name reserved for the new object,
  given the names of the objects that exist when it is called; and the loop of the import
  operator over the entries, which threads the set of object names and returns the names
  of the cubes in the order of their creation.\<close>

definition spawn_cube_unique :: "string \<Rightarrow> string set \<Rightarrow> string option" where
  "spawn_cube_unique base_name existing_obj_names = unique_name base_name existing_obj_names"

fun import_loop :: "entry list \<Rightarrow> string set \<Rightarrow> (string list \<times> string set) option" where
  "import_loop [] names = Some ([], names)"
| "import_loop (e # entries) names =
     (if e_shape e \<noteq> ''box'' then import_loop entries names
      else
        (case spawn_cube_unique (e_name e) names of
           None \<Rightarrow> None
         | Some obj_name \<Rightarrow>
             (case import_loop entries (insert obj_name names) of
                None \<Rightarrow> None
              | Some (created, names') \<Rightarrow> Some (obj_name # created, names'))))"

section \<open>Notions used to state the properties\<close>

text \<open>The two load operators and the two visualize operators differ in the arm only.\<close>

definition load_execute ::
  "arm \<Rightarrow> (string \<Rightarrow> real option) \<Rightarrow> filesystem \<Rightarrow> ('c, 'r) pose_rig \<Rightarrow> ('c, 'r) session \<Rightarrow>
   (report list \<times> (error + status)) \<times> ('c, 'r) session" where
  "load_execute which = (case which of A \<Rightarrow> load_a_execute | B \<Rightarrow> load_b_execute)"

definition arm_folder :: "arm \<Rightarrow> scene \<Rightarrow> string" where
  "arm_folder which sc = (case which of A \<Rightarrow> sa_folder_a sc | B \<Rightarrow> sa_folder_b sc)"

definition load_path :: "arm \<Rightarrow> scene \<Rightarrow> string" where
  "load_path which sc = path_join (arm_folder which sc) (da_common_filename sc)"

definition tcp_visualize_execute ::
  "arm \<Rightarrow> (string \<Rightarrow> real option) \<Rightarrow> filesystem \<Rightarrow> scene \<Rightarrow> report \<times> status \<times> point list" where
  "tcp_visualize_execute which =
     (case which of A \<Rightarrow> tcp_visualize_a_execute | B \<Rightarrow> tcp_visualize_b_execute)"

definition arm_y_offset :: "arm \<Rightarrow> real" where
  "arm_y_offset which = (case which of A \<Rightarrow> 281 / 1000 | B \<Rightarrow> - (281 / 1000))"

text \<open>The lines of a file that carry data: not blank, not a comment, and not the header.\<close>

definition is_data :: "string \<Rightarrow> bool" where
  "is_data line \<longleftrightarrow> py_strip line \<noteq> [] \<and> \<not> startswith (py_strip line) ''#''"

definition data_lines :: "bool \<Rightarrow> string list \<Rightarrow> string list" where
  "data_lines has_header lines =
     (if has_header then drop 1 (filter is_data lines) else filter is_data lines)"

text \<open>The numeric fields of a data line, \<open>None\<close> when one of its tokens is not numeric.\<close>

definition numeric_fields :: "(string \<Rightarrow> real option) \<Rightarrow> delim_mode \<Rightarrow> string \<Rightarrow> real list option" where
  "numeric_fields flt delim_mode line = those (map flt (split_line delim_mode (py_strip line)))"

text \<open>The entry \<open>(i, j)\<close> of a 4x4 matrix flattened into sixteen numbers, and the
  translation it carries in its last column.\<close>

definition mat4 :: "bool \<Rightarrow> real list \<Rightarrow> nat \<Rightarrow> nat \<Rightarrow> real" where
  "mat4 column_major m i j = (if column_major then m ! (4 * j + i) else m ! (4 * i + j))"

definition translation :: "bool \<Rightarrow> real list \<Rightarrow> point" where
  "translation column_major m = (mat4 column_major m 0 3, mat4 column_major m 1 3,
                                 mat4 column_major m 2 3)"



definition strictly_increasing :: "real list \<Rightarrow> bool" where
  "strictly_increasing xs \<longleftrightarrow> sorted_wrt (<) xs"


text \<open>The union of the time spans of the loaded trajectories, \<open>[0, 1]\<close> when none is
  loaded.\<close>

definition union_range :: "traj option \<Rightarrow> traj option \<Rightarrow> real \<times> real" where
  "union_range ta tb =
     (case (ta, tb) of
        (None, None) \<Rightarrow> (0, 1)
      | (Some Ta, None) \<Rightarrow> (hd (ts Ta), last (ts Ta))
      | (None, Some Tb) \<Rightarrow> (hd (ts Tb), last (ts Tb))
      | (Some Ta, Some Tb) \<Rightarrow> (min (hd (ts Ta)) (hd (ts Tb)), max (last (ts Ta)) (last (ts Tb))))"

definition loaded_ok :: "traj option \<Rightarrow> bool" where
  "loaded_ok tr \<longleftrightarrow> (case tr of None \<Rightarrow> True | Some T \<Rightarrow> ts T \<noteq> [])"

text \<open>A point moved along the second axis.\<close>

definition shifted :: "real \<Rightarrow> point \<Rightarrow> point" where
  "shifted off p = (case p of (x, y, z) \<Rightarrow> (x, y + off, z))"

text \<open>The point a TCP data line stands for, under an offset along the second axis.\<close>

definition tcp_point_of ::
  "(string \<Rightarrow> real option) \<Rightarrow> delim_mode \<Rightarrow> bool \<Rightarrow> real \<Rightarrow> string \<Rightarrow> point \<Rightarrow> bool" where
  "tcp_point_of flt delim_mode column_major off line p =
     (case numeric_fields flt delim_mode line of
        None \<Rightarrow> False
      | Some vals \<Rightarrow> 17 \<le> length vals \<and>
                     p = shifted off (translation column_major (take 16 (drop 1 vals))))"




text \<open>A list of pairs as the pair of the two lists \<open>times\<close> and \<open>joints\<close>.\<close>

definition unzip :: "('a \<times> 'b) list \<Rightarrow> 'a list \<times> 'b list" where
  "unzip ps = (map fst ps, map snd ps)"






subsection \<open>Concrete inputs\<close>

definition demo_scene :: scene where
  "demo_scene = \<lparr>sa_folder_a = ''a'', sa_folder_b = ''b'', da_common_filename = ''traj.txt'',
     da_delim = AUTO, sa_time_unit = SECONDS, sa_has_header = False, sa_degrees = False,
     sa_scrub = 1 / 2, sa_time = 0, da_tcp_filename = ''tcp.txt'', tcp_column_major = False,
     tcp_step = 1\<rparr>"

definition traj_01 :: traj where
  "traj_01 = \<lparr>ts = [0, 1], qs = [replicate 7 0, replicate 7 7]\<rparr>"

definition traj_23 :: traj where
  "traj_23 = \<lparr>ts = [2, 3], qs = [replicate 7 1, replicate 7 2]\<rparr>"

definition demo_session :: "(unit, unit) session" where
  "demo_session = \<lparr>TRAJ_A = Some traj_01, TRAJ_B = Some traj_23,
     ARMREFS = (\<lambda>w. None), scn = demo_scene, rig = ()\<rparr>"

definition no_files :: filesystem where
  "no_files p = None"

definition idle_rig :: "(unit, unit) pose_rig" where
  "idle_rig which sc qa cr = cr"


definition traj_single :: traj where
  "traj_single = \<lparr>ts = [0], qs = [replicate 7 0]\<rparr>"

definition single_session :: "(unit, unit) session" where
  "single_session = \<lparr>TRAJ_A = Some traj_single, TRAJ_B = None,
     ARMREFS = (\<lambda>w. None), scn = demo_scene\<lparr>sa_scrub := 1\<rparr>, rig = ()\<rparr>"

definition tcp_row :: "real list" where
  "tcp_row = [0, 1, 0, 0, 10, 0, 1, 0, 20, 0, 0, 1, 30, 0, 0, 0, 1]"

definition tcp_fs :: filesystem where
  "tcp_fs p = (if p = ''a/tcp.txt'' then Some [''0 1 0 0 10 0 1 0 20 0 0 1 30 0 0 0 1'']
               else None)"












definition cube_entry :: entry where
  "cube_entry = \<lparr>e_name = ''Cube'', e_pos = [0, 0, 0], e_quat_xyzw = [0, 0, 0, 1],
                  e_shape = ''box'', e_size = [2, 2, 2]\<rparr>"

definition mesh_named :: "string \<Rightarrow> bobject" where
  "mesh_named n = \<lparr>o_name = n, o_type = ''MESH'', o_t = (1 / 2, 2, - 13 / 4),
                    o_q = (0, 0, 0, 1), o_dims = (2, 2, 1 / 8)\<rparr>"

text \<open>Writing the selection to a file and reading the file back.\<close>

definition roundtrip :: "bobject list \<Rightarrow> error + entry list" where
  "roundtrip selected =
     (case export_lines selected of
        Inl e \<Rightarrow> Inl e
      | Inr ls \<Rightarrow> parse_scene_file dec_float (read_lines (join_lines ls)))"

section \<open>Lemmas on the sampler\<close>




lemma py_get_first: "xs \<noteq> [] \<Longrightarrow> py_get xs 0 = Inr (hd xs)"
  by (cases xs) (simp_all add: py_get_def)

lemma py_get_last: "xs \<noteq> [] \<Longrightarrow> py_get xs (- 1) = Inr (last xs)"
proof -
  assume ne: "xs \<noteq> []"
  then have "nat (int (length xs) + - 1) = length xs - 1" by (cases xs) simp_all
  moreover from ne have "Suc 0 \<le> length xs" by (cases xs) simp_all
  ultimately show ?thesis using ne by (simp add: py_get_def last_conv_nth)
qed


lemma py_get_Suc: "py_get xs (int (Suc i) - 1) = py_get xs (int i)"
  by simp

lemma strict_single:
  assumes "sorted_wrt (<) (xs::real list)" "xs \<noteq> []" "last xs \<le> hd xs"
  shows "length xs = 1"
proof (rule ccontr)
  assume "length xs \<noteq> 1"
  with assms(2) have len: "0 < length xs - 1" "length xs - 1 < length xs"
    by (cases xs; simp)+
  from sorted_wrt_nth_less[OF assms(1) len] have "xs ! 0 < xs ! (length xs - 1)" .
  with assms(2,3) show False by (simp add: hd_conv_nth last_conv_nth)
qed


lemma sample_left:
  assumes "ts T \<noteq> []" "length (qs T) = length (ts T)" "q \<le> hd (ts T)"
  shows "sample_q T q = Inr (hd (qs T))"
proof -
  from assms have "qs T \<noteq> []" by auto
  with assms show ?thesis by (simp add: sample_q_def py_get_first)
qed

lemma sample_right:
  assumes "ts T \<noteq> []" "length (qs T) = length (ts T)" "last (ts T) \<le> q" "hd (ts T) < q"
  shows "sample_q T q = Inr (last (qs T))"
proof -
  from assms have "qs T \<noteq> []" by auto
  with assms show ?thesis by (simp add: sample_q_def py_get_first py_get_last)
qed




section \<open>Lemmas on the reading loops\<close>

lemma digit_chars:
  "digit_char 0 = CHR ''0''" "digit_char 1 = CHR ''1''" "digit_char 2 = CHR ''2''"
  "digit_char 3 = CHR ''3''" "digit_char 4 = CHR ''4''" "digit_char 5 = CHR ''5''"
  "digit_char 6 = CHR ''6''" "digit_char 7 = CHR ''7''" "digit_char 8 = CHR ''8''"
  "digit_char 9 = CHR ''9''" "digit_char (Suc 0) = CHR ''1''"
  by (code_simp)+

lemma data_lines_skip: "\<not> is_data line \<Longrightarrow> data_lines h (line # rest) = data_lines h rest"
  by (simp add: data_lines_def)

lemma data_lines_header: "is_data line \<Longrightarrow> data_lines True (line # rest) = data_lines False rest"
  by (simp add: data_lines_def)

lemma data_lines_row: "is_data line \<Longrightarrow> data_lines False (line # rest) = line # data_lines False rest"
  by (simp add: data_lines_def)





section \<open>The parser as a function of the data lines\<close>












section \<open>Lemmas on sorting and collapsing\<close>















lemma zip_unzip: "zip (fst (unzip ps)) (snd (unzip ps)) = ps"
  by (simp add: unzip_def zip_map_fst_snd)










section \<open>Lemmas on the search for a free name\<close>

lemma digits_val_snoc:
  "digits_val (s @ [c]) = 10 * digits_val s + ((of_char c :: nat) - 48)"
  by (simp add: digits_val_def)

lemma of_char_digit: "d < 10 \<Longrightarrow> (of_char (digit_char d) :: nat) - 48 = d"
  by (simp add: digit_char_def)

lemma digits_val_str_nat: "digits_val (str_nat n) = n"
proof (induction n rule: str_nat.induct)
  case (1 n)
  show ?case
  proof (cases "n < 10")
    case True
    then have "str_nat n = [digit_char n]" by (subst str_nat.simps) simp
    with True show ?thesis by (simp add: digits_val_def of_char_digit)
  next
    case False
    then have "str_nat n = str_nat (n div 10) @ [digit_char (n mod 10)]"
      by (subst str_nat.simps) simp
    with 1[OF False] show ?thesis
      by (simp add: digits_val_snoc of_char_digit)
  qed
qed

lemma digits_val_zeros: "foldl (\<lambda>acc c. 10 * acc + ((of_char c :: nat) - 48)) 0 (replicate k CHR ''0'') = 0"
  by (induction k) simp_all

lemma digits_val_zfill: "digits_val (zfill w (str_nat n)) = n"
  using digits_val_str_nat[of n]
  by (simp add: zfill_def digits_val_def digits_val_zeros)

lemma suffixed_inj: "suffixed base i = suffixed base j \<Longrightarrow> i = j"
proof -
  assume "suffixed base i = suffixed base j"
  then have "zfill 3 (str_nat i) = zfill 3 (str_nat j)" by (simp add: suffixed_def)
  then have "digits_val (zfill 3 (str_nat i)) = digits_val (zfill 3 (str_nat j))" by simp
  then show "i = j" by (simp add: digits_val_zfill)
qed

lemma suffixed_bound:
  assumes "finite S"
  shows "\<exists>N. \<forall>i \<ge> N. suffixed base i \<notin> S"
proof -
  have "inj (suffixed base)" by (rule injI) (rule suffixed_inj)
  then have "finite (suffixed base -` S)" using assms by (simp add: finite_vimageI)
  then obtain N where N: "\<forall>i \<in> suffixed base -` S. i < N"
    using finite_nat_set_iff_bounded by blast
  have "\<forall>i \<ge> N. suffixed base i \<notin> S"
  proof (intro allI impI notI)
    fix i assume "N \<le> i" "suffixed base i \<in> S"
    then have "i \<in> suffixed base -` S" by simp
    with N have "i < N" by blast
    with \<open>N \<le> i\<close> show False by simp
  qed
  then show ?thesis by blast
qed

lemma unique_loop_returns:
  assumes "\<forall>i \<ge> N. suffixed base i \<notin> S"
  shows "\<exists>nm. unique_loop base S i = Some nm \<and> nm \<notin> S"
proof (induction "N - i" arbitrary: i rule: less_induct)
  case less
  show ?case
  proof (cases "suffixed base i \<in> S")
    case False
    then have "unique_loop base S i = Some (suffixed base i)"
      by (subst unique_loop.simps) simp
    with False show ?thesis by simp
  next
    case True
    with assms have "i < N" by (meson not_le)
    then have "N - (i + 1) < N - i" by simp
    from less[OF this] obtain nm where "unique_loop base S (i + 1) = Some nm" "nm \<notin> S" by blast
    moreover have "unique_loop base S i = unique_loop base S (i + 1)"
      using True by (subst unique_loop.simps) simp
    ultimately show ?thesis by simp
  qed
qed

lemma unique_name_returns:
  assumes "finite S"
  shows "\<exists>nm. unique_name base S = Some nm \<and> nm \<notin> S \<and> (base \<notin> S \<longrightarrow> nm = base)"
proof (cases "base \<in> S")
  case False
  then show ?thesis by (simp add: unique_name_def)
next
  case True
  from suffixed_bound[OF assms, of base] obtain N where "\<forall>i \<ge> N. suffixed base i \<notin> S" by blast
  from unique_loop_returns[OF this, of 1] True show ?thesis by (simp add: unique_name_def)
qed

lemma import_loop_returns:
  assumes "finite names"
  shows "\<exists>created names'. import_loop entries names = Some (created, names') \<and>
           names' = names \<union> set created \<and>
           (\<forall>k < length created. created ! k \<notin> names \<union> set (take k created))"
  using assms
proof (induction entries arbitrary: names)
  case Nil
  then show ?case by simp
next
  case (Cons e entries)
  show ?case
  proof (cases "e_shape e = ''box''")
    case False
    with Cons.IH[OF Cons.prems] show ?thesis by simp
  next
    case True
    from unique_name_returns[OF Cons.prems, of "e_name e"] obtain nm where
      nm: "unique_name (e_name e) names = Some nm" "nm \<notin> names" by blast
    have "finite (insert nm names)" using Cons.prems by simp
    from Cons.IH[OF this] obtain created names' where
      r: "import_loop entries (insert nm names) = Some (created, names')"
      "names' = insert nm names \<union> set created"
      "\<forall>k < length created. created ! k \<notin> insert nm names \<union> set (take k created)"
      by blast
    have run: "import_loop (e # entries) names = Some (nm # created, names')"
      using True nm(1) r(1) by (simp add: spawn_cube_unique_def)
    have fresh: "\<forall>k < length (nm # created). (nm # created) ! k \<notin> names \<union> set (take k (nm # created))"
    proof (intro allI impI)
      fix k assume k: "k < length (nm # created)"
      show "(nm # created) ! k \<notin> names \<union> set (take k (nm # created))"
      proof (cases k)
        case 0
        with nm(2) show ?thesis by simp
      next
        case (Suc m)
        with k r(3) show ?thesis by simp
      qed
    qed
    from run r(2) fresh show ?thesis by auto
  qed
qed

lemma cube_demo: "unique_name ''Cube'' {''Cube'', ''Cube.001''} = Some ''Cube.002''"
  by code_simp

section \<open>Lemmas on the scene files\<close>

lemma round_half_even_nat: "round_half_even (real n) = int n"
  by (simp add: round_half_even_def Let_def)

lemma fmt_fixed_exact:
  assumes "\<bar>x\<bar> * 10 ^ k = real n"
  shows "fmt_fixed k x = (if x < 0 then ''-'' else []) @ str_nat (n div 10 ^ k) @ ''.'' @
                         zfill k (str_nat (n mod 10 ^ k))"
  unfolding fmt_fixed_def assms round_half_even_nat by (simp add: Let_def)

lemma str_nat_values:
  "str_nat 0 = ''0''" "str_nat 1 = ''1''" "str_nat 2 = ''2''" "str_nat 3 = ''3''"
  "str_nat (Suc 0) = ''1''"
  "str_nat 500000 = ''500000''" "str_nat 250000 = ''250000''" "str_nat 125000 = ''125000''"
  by (simp_all add: str_nat.simps digit_chars)

lemma zfill_values:
  "zfill 6 ''0'' = ''000000''" "zfill 6 ''500000'' = ''500000''"
  "zfill 6 ''250000'' = ''250000''" "zfill 6 ''125000'' = ''125000''"
  "zfill 3 ''1'' = ''001''" "zfill 3 ''2'' = ''002''"
  by (simp_all add: zfill_def numeral_eq_Suc)

lemma f6_values:
  "f6 (1 / 2) = ''0.500000''" "f6 2 = ''2.000000''" "f6 (- (13 / 4)) = ''-3.250000''"
  "f6 0 = ''0.000000''" "f6 1 = ''1.000000''" "f6 (1 / 8) = ''0.125000''"
proof -
  show "f6 (1 / 2) = ''0.500000''"
    unfolding f6_def by (subst fmt_fixed_exact[where n = 500000]) (simp_all add: str_nat_values zfill_values)
  show "f6 2 = ''2.000000''"
    unfolding f6_def by (subst fmt_fixed_exact[where n = 2000000]) (simp_all add: str_nat_values zfill_values)
  show "f6 (- (13 / 4)) = ''-3.250000''"
    unfolding f6_def by (subst fmt_fixed_exact[where n = 3250000]) (simp_all add: str_nat_values zfill_values)
  show "f6 0 = ''0.000000''"
    unfolding f6_def by (subst fmt_fixed_exact[where n = 0]) (simp_all add: str_nat_values zfill_values)
  show "f6 1 = ''1.000000''"
    unfolding f6_def by (subst fmt_fixed_exact[where n = 1000000]) (simp_all add: str_nat_values zfill_values)
  show "f6 (1 / 8) = ''0.125000''"
    unfolding f6_def by (subst fmt_fixed_exact[where n = 125000]) (simp_all add: str_nat_values zfill_values)
qed

lemma blank_block:
  "export_block (mesh_named '' '') =
     [''* '', ''0.500000 2.000000 -3.250000'', ''0.000000 0.000000 0.000000 1.000000'', ''1'',
      ''box'', ''2.000000 2.000000 0.125000'', ''0 0 0'', ''0 0 0 1'', ''0 0 0 0'', ''0'']"
  by (simp add: export_block_def mesh_named_def f6_values py_strip_def is_space_def)

lemma blank_export:
  "export_lines [mesh_named '' ''] =
     Inr [''(noname)+'', ''* '', ''0.500000 2.000000 -3.250000'',
          ''0.000000 0.000000 0.000000 1.000000'', ''1'', ''box'',
          ''2.000000 2.000000 0.125000'', ''0 0 0'', ''0 0 0 1'', ''0 0 0 0'', ''0'', ''.'']"
proof -
  have "o_type (mesh_named '' '') = ''MESH''" by (simp add: mesh_named_def)
  then show ?thesis
    by (simp add: export_lines_def sorted_objs_def blank_block)
qed

lemma blank_read:
  "nonempty_lines (read_lines (join_lines
     [''(noname)+'', ''* '', ''0.500000 2.000000 -3.250000'',
      ''0.000000 0.000000 0.000000 1.000000'', ''1'', ''box'',
      ''2.000000 2.000000 0.125000'', ''0 0 0'', ''0 0 0 1'', ''0 0 0 0'', ''0'', ''.''])) =
     [''(noname)+'', ''*'', ''0.500000 2.000000 -3.250000'',
      ''0.000000 0.000000 0.000000 1.000000'', ''1'', ''box'',
      ''2.000000 2.000000 0.125000'', ''0 0 0'', ''0 0 0 1'', ''0 0 0 0'', ''0'', ''.'']"
  by (simp add: join_lines_def nonempty_lines_def py_strip_def is_space_def)

lemma blank_roundtrip: "roundtrip [mesh_named '' ''] = Inr []"
  unfolding roundtrip_def blank_export
  by (simp add: parse_scene_file_def blank_read startswith_def)

lemma named_block:
  "export_block (mesh_named ''b c'') =
     [''* b_c'', ''0.500000 2.000000 -3.250000'', ''0.000000 0.000000 0.000000 1.000000'', ''1'',
      ''box'', ''2.000000 2.000000 0.125000'', ''0 0 0'', ''0 0 0 1'', ''0 0 0 0'', ''0'']"
  by (simp add: export_block_def mesh_named_def f6_values py_strip_def is_space_def)

lemma named_export:
  "export_lines [mesh_named ''b c''] =
     Inr [''(noname)+'', ''* b_c'', ''0.500000 2.000000 -3.250000'',
          ''0.000000 0.000000 0.000000 1.000000'', ''1'', ''box'',
          ''2.000000 2.000000 0.125000'', ''0 0 0'', ''0 0 0 1'', ''0 0 0 0'', ''0'', ''.'']"
proof -
  have "o_type (mesh_named ''b c'') = ''MESH''" by (simp add: mesh_named_def)
  then show ?thesis
    by (simp add: export_lines_def sorted_objs_def named_block)
qed

lemma named_read:
  "nonempty_lines (read_lines (join_lines
     [''(noname)+'', ''* b_c'', ''0.500000 2.000000 -3.250000'',
      ''0.000000 0.000000 0.000000 1.000000'', ''1'', ''box'',
      ''2.000000 2.000000 0.125000'', ''0 0 0'', ''0 0 0 1'', ''0 0 0 0'', ''0'', ''.''])) =
     [''(noname)+'', ''* b_c'', ''0.500000 2.000000 -3.250000'',
      ''0.000000 0.000000 0.000000 1.000000'', ''1'', ''box'',
      ''2.000000 2.000000 0.125000'', ''0 0 0'', ''0 0 0 1'', ''0 0 0 0'', ''0'', ''.'']"
  by (simp add: join_lines_def nonempty_lines_def py_strip_def is_space_def)

lemma scene_floats:
  "parse_floats dec_float ''0.500000 2.000000 -3.250000'' (Some 3) = Inr [1 / 2, 2, - (13 / 4)]"
  "parse_floats dec_float ''0.000000 0.000000 0.000000 1.000000'' (Some 4) = Inr [0, 0, 0, 1]"
  "parse_floats dec_float ''2.000000 2.000000 0.125000'' (Some 3) = Inr [2, 2, 1 / 8]"
  by (simp_all add: parse_floats_def re_split_def py_strip_def is_space_def dec_float_def
      is_digit_def digits_val_def Let_def)

lemma named_roundtrip:
  "roundtrip [mesh_named ''b c''] =
     Inr [\<lparr>e_name = ''b_c'', e_pos = [1 / 2, 2, - (13 / 4)], e_quat_xyzw = [0, 0, 0, 1],
            e_shape = ''box'', e_size = [2, 2, 1 / 8]\<rparr>]"
  unfolding roundtrip_def named_export
  by (simp add: parse_scene_file_def named_read startswith_def scene_floats py_strip_def
      is_space_def lower_str_def lower_char_def)

section \<open>The times of a parsed trajectory\<close>




section \<open>Clamping at the ends of a trajectory\<close>

text \<open>
  C2. For every trajectory with at least one sample and as many poses as times: a query
  time at or before the first time yields the first pose unchanged; a query time at or
  after the last time and after the first time yields the last pose unchanged; and when the
  times are strictly increasing, as they are in every trajectory of the data model, every
  query time at or after the last time yields the last pose.
\<close>

theorem sample_clamps:
  assumes "ts T \<noteq> []" "length (qs T) = length (ts T)"
  shows "(q \<le> hd (ts T) \<longrightarrow> sample_q T q = Inr (hd (qs T))) \<and>
         (last (ts T) \<le> q \<and> hd (ts T) < q \<longrightarrow> sample_q T q = Inr (last (qs T))) \<and>
         (last (ts T) \<le> q \<and> strictly_increasing (ts T) \<longrightarrow> sample_q T q = Inr (last (qs T)))"
proof (intro conjI impI)
  assume "q \<le> hd (ts T)"
  then show "sample_q T q = Inr (hd (qs T))" using assms by (rule sample_left[rotated 2])
next
  assume "last (ts T) \<le> q \<and> hd (ts T) < q"
  then show "sample_q T q = Inr (last (qs T))" using assms by (simp add: sample_right)
next
  assume h: "last (ts T) \<le> q \<and> strictly_increasing (ts T)"
  show "sample_q T q = Inr (last (qs T))"
  proof (cases "q \<le> hd (ts T)")
    case False
    with h assms show ?thesis by (simp add: sample_right)
  next
    case True
    with h have "last (ts T) \<le> hd (ts T)" by simp
    with h assms(1) have "length (ts T) = 1"
      by (simp add: strictly_increasing_def strict_single)
    with assms(2) have "length (qs T) = 1" by simp
    then obtain p where "qs T = [p]" by (cases "qs T") simp_all
    then have "hd (qs T) = last (qs T)" by simp
    with True assms show ?thesis by (simp add: sample_left)
  qed
qed

theorem sample_clamps_witness:
  "ts traj_01 \<noteq> [] \<and> length (qs traj_01) = length (ts traj_01) \<and>
   - 1 \<le> hd (ts traj_01) \<and> sample_q traj_01 (- 1) = Inr (replicate 7 0) \<and>
   last (ts traj_01) \<le> 2 \<and> hd (ts traj_01) < 2 \<and> strictly_increasing (ts traj_01) \<and>
   sample_q traj_01 2 = Inr (replicate 7 7)"
  using sample_clamps[of traj_01 "- 1"] sample_clamps[of traj_01 2]
  by (simp add: traj_01_def strictly_increasing_def)

section \<open>Interpolation between two consecutive samples\<close>




section \<open>The absolute time of a scrub fraction\<close>

lemma traj_ends_Some: "ts T \<noteq> [] \<Longrightarrow> traj_ends (Some T) = Inr [(hd (ts T), last (ts T))]"
  by (simp add: traj_ends_def py_get_first py_get_last)

lemma traj_ends_None: "traj_ends None = Inr []"
  by (simp add: traj_ends_def)

lemma global_time_range_union:
  assumes "loaded_ok ta" "loaded_ok tb"
  shows "global_time_range ta tb = Inr (union_range ta tb)"
proof (cases ta)
  case None
  then show ?thesis using assms(2)
    by (cases tb) (simp_all add: global_time_range_def traj_ends_None traj_ends_Some
        union_range_def loaded_ok_def)
next
  case (Some Ta)
  then show ?thesis using assms
    by (cases tb) (simp_all add: global_time_range_def traj_ends_None traj_ends_Some
        union_range_def loaded_ok_def)
qed

lemma pose_one_scn: "scn (snd (pose_one host which tr t st)) = scn st"
  by (simp add: pose_one_def split: option.splits sum.splits prod.splits)

lemma apply_pose_sa_time:
  assumes "global_time_range (TRAJ_A st) (TRAJ_B st) = Inr r"
  shows "sa_time (scn (snd (apply_pose_from_scrub host st))) = scrub_time (sa_scrub (scn st)) r"
proof -
  define t where "t = scrub_time (sa_scrub (scn st)) r"
  define st1 where "st1 = st\<lparr>scn := (scn st)\<lparr>sa_time := t\<rparr>\<rparr>"
  obtain res st2 where p1: "pose_one host A (TRAJ_A st) t st1 = (res, st2)"
    by (cases "pose_one host A (TRAJ_A st) t st1")
  have s2: "scn st2 = scn st1" using pose_one_scn[of host A "TRAJ_A st" t st1] p1 by simp
  have "scn (snd (apply_pose_from_scrub host st)) = scn st1"
  proof (cases res)
    case (Inl e)
    then show ?thesis using assms p1 s2
      by (simp add: apply_pose_from_scrub_def Let_def t_def[symmetric] st1_def[symmetric])
  next
    case (Inr u)
    then show ?thesis using assms p1 s2 pose_one_scn[of host B "TRAJ_B st2" t st2]
      by (simp add: apply_pose_from_scrub_def Let_def t_def[symmetric] st1_def[symmetric])
  qed
  then show ?thesis by (simp add: st1_def t_def)
qed

text \<open>
  C4, as the code has it. For every scrub fraction and every set of loaded trajectories
  (each with at least one sample), the time range is the union \<open>[t_min, t_max]\<close> of their
  spans, \<open>[0, 1]\<close> when none is loaded, and the absolute scrub time is
  \<open>t_min + fraction * max(t_max - t_min, 1e-9)\<close>; it is
  \<open>t_min + fraction * (t_max - t_min)\<close> whenever the range is at least \<open>1e-9\<close> wide. Two
  trajectories with spans \<open>[0, 1]\<close> and \<open>[2, 3]\<close> give the range \<open>[0, 3]\<close>, the fraction
  \<open>0.5\<close> gives the time \<open>1.5\<close>, at which the first trajectory yields its last pose and the
  second its first pose.
\<close>

theorem scrub_time_over_union_range:
  assumes "loaded_ok (TRAJ_A st)" "loaded_ok (TRAJ_B st)"
    "union_range (TRAJ_A st) (TRAJ_B st) = (t_min, t_max)"
  shows "global_time_range (TRAJ_A st) (TRAJ_B st) = Inr (t_min, t_max) \<and>
         sa_time (scn (snd (apply_pose_from_scrub host st))) =
           t_min + sa_scrub (scn st) * max (t_max - t_min) (1 / 10 ^ 9) \<and>
         (1 / 10 ^ 9 \<le> t_max - t_min \<longrightarrow>
            sa_time (scn (snd (apply_pose_from_scrub host st))) =
              t_min + sa_scrub (scn st) * (t_max - t_min)) \<and>
         union_range None None = (0, 1) \<and>
         union_range (Some traj_01) (Some traj_23) = (0, 3) \<and>
         scrub_time (1 / 2) (0, 3) = 3 / 2 \<and>
         sample_q traj_01 (3 / 2) = Inr (last (qs traj_01)) \<and>
         sample_q traj_23 (3 / 2) = Inr (hd (qs traj_23))"
proof -
  have g: "global_time_range (TRAJ_A st) (TRAJ_B st) = Inr (t_min, t_max)"
    using global_time_range_union[OF assms(1,2)] assms(3) by simp
  have t: "sa_time (scn (snd (apply_pose_from_scrub host st))) =
           t_min + sa_scrub (scn st) * max (t_max - t_min) (1 / 10 ^ 9)"
    using apply_pose_sa_time[OF g, of host] by (simp add: scrub_time_def)
  have t': "1 / 10 ^ 9 \<le> t_max - t_min \<longrightarrow>
            sa_time (scn (snd (apply_pose_from_scrub host st))) =
              t_min + sa_scrub (scn st) * (t_max - t_min)"
    using t by (simp add: max_def)
  have e1: "union_range None None = (0, 1)" by (simp add: union_range_def)
  have e2: "union_range (Some traj_01) (Some traj_23) = (0, 3)"
    by (simp add: union_range_def traj_01_def traj_23_def)
  have e3: "scrub_time (1 / 2) (0, 3) = 3 / 2" by (simp add: scrub_time_def)
  have e4: "sample_q traj_01 (3 / 2) = Inr (last (qs traj_01))"
    by (simp add: sample_q_def py_get_def traj_01_def)
  have e5: "sample_q traj_23 (3 / 2) = Inr (hd (qs traj_23))"
    by (simp add: sample_q_def py_get_def traj_23_def)
  from g t t' e1 e2 e3 e4 e5 show ?thesis by blast
qed

theorem scrub_time_over_union_range_witness:
  "loaded_ok (TRAJ_A demo_session) \<and> loaded_ok (TRAJ_B demo_session) \<and>
   union_range (TRAJ_A demo_session) (TRAJ_B demo_session) = (0, 3) \<and>
   global_time_range (TRAJ_A demo_session) (TRAJ_B demo_session) = Inr (0, 3) \<and>
   1 / 10 ^ 9 \<le> (3 - 0 :: real) \<and>
   sa_time (scn (snd (apply_pose_from_scrub idle_rig demo_session))) = 3 / 2"
proof -
  have h: "loaded_ok (TRAJ_A demo_session)" "loaded_ok (TRAJ_B demo_session)"
    "union_range (TRAJ_A demo_session) (TRAJ_B demo_session) = (0, 3)"
    by (simp_all add: demo_session_def loaded_ok_def union_range_def traj_01_def traj_23_def)
  from scrub_time_over_union_range[OF h, of idle_rig] h show ?thesis
    by (simp add: demo_session_def demo_scene_def)
qed

text \<open>The claim as stated, without the lower bound on the duration: with one trajectory
  of a single sample at time \<open>0\<close> the range is \<open>[0, 0]\<close>, and the fraction \<open>1\<close> gives the
  time \<open>1e-9\<close>, not \<open>0 + 1 * (0 - 0)\<close>.\<close>

theorem scrub_time_counterexample:
  "loaded_ok (TRAJ_A single_session) \<and> loaded_ok (TRAJ_B single_session) \<and>
   global_time_range (TRAJ_A single_session) (TRAJ_B single_session) = Inr (0, 0) \<and>
   sa_scrub (scn single_session) = 1 \<and>
   sa_time (scn (snd (apply_pose_from_scrub idle_rig single_session))) = 1 / 10 ^ 9 \<and>
   sa_time (scn (snd (apply_pose_from_scrub idle_rig single_session))) \<noteq> 0 + 1 * (0 - 0)"
proof -
  have h: "loaded_ok (TRAJ_A single_session)" "loaded_ok (TRAJ_B single_session)"
    by (simp_all add: single_session_def loaded_ok_def traj_single_def)
  have g: "global_time_range (TRAJ_A single_session) (TRAJ_B single_session) = Inr (0, 0)"
    using global_time_range_union[OF h]
    by (simp add: union_range_def single_session_def traj_single_def)
  from apply_pose_sa_time[OF g, of idle_rig] g h show ?thesis
    by (simp add: scrub_time_def single_session_def)
qed

section \<open>Sampling at a stored time\<close>



section \<open>When the trajectory parser fails\<close>



section \<open>A failed load leaves the session as it was\<close>

lemma load_a_unchanged:
  "parse_single_arm flt fs (path_join (sa_folder_a (scn st)) (da_common_filename (scn st)))
     (da_delim (scn st)) (sa_time_unit (scn st)) (sa_has_header (scn st)) (sa_degrees (scn st))
     = Inl e
   \<Longrightarrow> snd (load_a_execute flt fs host st) = st \<and>
       snd (fst (load_a_execute flt fs host st)) = Inr CANCELLED"
  by (simp add: load_a_execute_def Let_def)

lemma load_b_unchanged:
  "parse_single_arm flt fs (path_join (sa_folder_b (scn st)) (da_common_filename (scn st)))
     (da_delim (scn st)) (sa_time_unit (scn st)) (sa_has_header (scn st)) (sa_degrees (scn st))
     = Inl e
   \<Longrightarrow> snd (load_b_execute flt fs host st) = st \<and>
       snd (fst (load_b_execute flt fs host st)) = Inr CANCELLED"
  by (simp add: load_b_execute_def Let_def)

text \<open>
  C7. Whenever the parse of the file of a load action raises (a missing file, a token that
  is not numeric, too few fields, no data row), the action returns CANCELLED and the whole
  session, hence the trajectory loaded before for that arm and the one of the other arm,
  is exactly what it was before the action. This holds for the load of arm A and of arm B.
\<close>

theorem load_fails_atomically:
  assumes "parse_single_arm flt fs (load_path which (scn st))
             (da_delim (scn st)) (sa_time_unit (scn st)) (sa_has_header (scn st))
             (sa_degrees (scn st)) = Inl e"
  shows "snd (load_execute which flt fs host st) = st \<and>
         snd (fst (load_execute which flt fs host st)) = Inr CANCELLED"
  using assms load_a_unchanged[of flt fs st e host] load_b_unchanged[of flt fs st e host]
  by (cases which) (simp_all add: load_execute_def load_path_def arm_folder_def)

theorem load_fails_atomically_witness:
  "parse_single_arm dec_float no_files (load_path A (scn demo_session))
     (da_delim (scn demo_session)) (sa_time_unit (scn demo_session))
     (sa_has_header (scn demo_session)) (sa_degrees (scn demo_session))
     = Inl (RuntimeError ''File not found: a/traj.txt'') \<and>
   snd (load_execute A dec_float no_files idle_rig demo_session) = demo_session \<and>
   snd (fst (load_execute A dec_float no_files idle_rig demo_session)) = Inr CANCELLED"
proof -
  have h: "parse_single_arm dec_float no_files (load_path A (scn demo_session))
     (da_delim (scn demo_session)) (sa_time_unit (scn demo_session))
     (sa_has_header (scn demo_session)) (sa_degrees (scn demo_session))
     = Inl (RuntimeError ''File not found: a/traj.txt'')"
    by (simp add: parse_single_arm_def no_files_def load_path_def arm_folder_def
        demo_session_def demo_scene_def path_join_def startswith_def)
  from load_fails_atomically[OF h, of idle_rig] h show ?thesis by simp
qed

section \<open>The points of the TCP markers\<close>

lemma tcp_rows_data:
  assumes "is_data line" "\<not> (hh \<and> \<not> hs)"
  shows "tcp_rows flt dm hh cm off hs (line # rest) =
           (case numeric_fields flt dm line of
              None \<Rightarrow> Inl (RuntimeError (''Non-numeric data in line: '' @ line))
            | Some vals \<Rightarrow>
                if length vals < 17 then
                  Inl (RuntimeError (''Expected 17 numbers (t + 16 matrix). Got '' @
                                     str_nat (length vals)))
                else (case tcp_rows flt dm hh cm off hs rest of
                        Inl e \<Rightarrow> Inl e
                      | Inr ps \<Rightarrow>
                          Inr (shifted off (translation cm (take 16 (drop 1 vals))) # ps)))"
proof -
  have d: "py_strip line \<noteq> []" "\<not> startswith (py_strip line) ''#''"
    using assms(1) by (simp_all add: is_data_def)
  have t: "(let m = take 16 (drop 1 vals);
                (x, y, z) = (if cm then (m ! 12, m ! 13, m ! 14) else (m ! 3, m ! 7, m ! 11))
            in f (x, y + off, z)) = f (shifted off (translation cm (take 16 (drop 1 vals))))"
    for vals and f :: "point \<Rightarrow> 'b"
    by (simp add: Let_def shifted_def translation_def mat4_def)
  show ?thesis
  proof (cases "numeric_fields flt dm line")
    case None
    then show ?thesis using d assms(2)
      by (cases hh; cases hs) (simp_all add: numeric_fields_def Let_def)
  next
    case (Some vals)
    then show ?thesis using d assms(2)
      by (cases hh; cases hs; cases cm)
         (simp_all add: numeric_fields_def Let_def shifted_def translation_def mat4_def
            split: sum.splits)
  qed
qed

lemma tcp_rows_points:
  "tcp_rows flt dm hh cm off hs lines = Inr pts \<Longrightarrow>
   list_all2 (tcp_point_of flt dm cm off) (data_lines (hh \<and> \<not> hs) lines) pts"
proof (induction lines arbitrary: hs pts)
  case Nil
  then show ?case by (simp add: data_lines_def)
next
  case (Cons line rest)
  show ?case
  proof (cases "is_data line")
    case False
    then have "tcp_rows flt dm hh cm off hs (line # rest) = tcp_rows flt dm hh cm off hs rest"
      by (auto simp: is_data_def Let_def)
    with Cons False show ?thesis by (simp add: data_lines_skip)
  next
    case True
    then have d: "py_strip line \<noteq> []" "\<not> startswith (py_strip line) ''#''"
      by (simp_all add: is_data_def)
    show ?thesis
    proof (cases "hh \<and> \<not> hs")
      case h: True
      then have "tcp_rows flt dm hh cm off hs (line # rest) = tcp_rows flt dm hh cm off True rest"
        using d by (simp add: Let_def)
      with Cons.prems have "tcp_rows flt dm hh cm off True rest = Inr pts" by simp
      from Cons.IH[OF this] h True show ?thesis by (simp add: data_lines_header)
    next
      case h: False
      have eq: "tcp_rows flt dm hh cm off hs (line # rest) =
                  (case numeric_fields flt dm line of
                     None \<Rightarrow> Inl (RuntimeError (''Non-numeric data in line: '' @ line))
                   | Some vals \<Rightarrow>
                       if length vals < 17 then
                         Inl (RuntimeError (''Expected 17 numbers (t + 16 matrix). Got '' @
                                            str_nat (length vals)))
                       else (case tcp_rows flt dm hh cm off hs rest of
                               Inl e \<Rightarrow> Inl e
                             | Inr ps \<Rightarrow>
                                 Inr (shifted off (translation cm (take 16 (drop 1 vals))) # ps)))"
        using tcp_rows_data[OF True h] .
      from Cons.prems obtain vals rest_pts where
        v: "numeric_fields flt dm line = Some vals" "17 \<le> length vals"
        and r: "tcp_rows flt dm hh cm off hs rest = Inr rest_pts"
        and p: "pts = shifted off (translation cm (take 16 (drop 1 vals))) # rest_pts"
        unfolding eq by (auto split: option.splits if_splits sum.splits)
      from h have hf: "(hh \<and> \<not> hs) = False" by simp
      from Cons.IH[OF r] have "list_all2 (tcp_point_of flt dm cm off) (data_lines False rest) rest_pts"
        unfolding hf .
      moreover have "tcp_point_of flt dm cm off line
                       (shifted off (translation cm (take 16 (drop 1 vals))))"
        using v by (simp add: tcp_point_of_def)
      ultimately show ?thesis
        unfolding hf p using True by (simp add: data_lines_row)
    qed
  qed
qed

lemma tcp_visualize_a_points:
  assumes "tcp_visualize_a_execute flt fs sc = (rep, FINISHED, out)"
  shows "\<exists>lines pts. fs (path_join (sa_folder_a sc) (da_tcp_filename sc)) = Some lines \<and>
           list_all2 (tcp_point_of flt (da_delim sc) (tcp_column_major sc) (281 / 1000))
             (data_lines (sa_has_header sc) lines) pts \<and>
           out = (if 1 < tcp_step sc then every_nth (tcp_step sc) pts else pts)"
proof -
  from assms obtain lines pts where
    f: "fs (path_join (sa_folder_a sc) (da_tcp_filename sc)) = Some lines"
    and r: "tcp_rows flt (da_delim sc) (sa_has_header sc) (tcp_column_major sc) (281 / 1000) False lines = Inr pts"
    and out: "out = (if 1 < tcp_step sc then every_nth (tcp_step sc) pts else pts)"
    by (auto simp: tcp_visualize_a_execute_def parse_tcp_positions_def Let_def
        split: if_splits option.splits sum.splits)
  from tcp_rows_points[OF r] f out show ?thesis by auto
qed

lemma tcp_visualize_b_points:
  assumes "tcp_visualize_b_execute flt fs sc = (rep, FINISHED, out)"
  shows "\<exists>lines pts. fs (path_join (sa_folder_b sc) (da_tcp_filename sc)) = Some lines \<and>
           list_all2 (tcp_point_of flt (da_delim sc) (tcp_column_major sc) (- (281 / 1000)))
             (data_lines (sa_has_header sc) lines) pts \<and>
           out = (if 1 < tcp_step sc then every_nth (tcp_step sc) pts else pts)"
proof -
  from assms obtain lines pts where
    f: "fs (path_join (sa_folder_b sc) (da_tcp_filename sc)) = Some lines"
    and r: "tcp_rows flt (da_delim sc) (sa_has_header sc) (tcp_column_major sc) (- (281 / 1000)) False lines = Inr pts"
    and out: "out = (if 1 < tcp_step sc then every_nth (tcp_step sc) pts else pts)"
    by (auto simp: tcp_visualize_b_execute_def parse_tcp_positions_def Let_def
        split: if_splits option.splits sum.splits)
  from tcp_rows_points[OF r] f out show ?thesis by auto
qed

lemma tcp_demo_run:
  "tcp_visualize_execute A dec_float tcp_fs demo_scene =
     ((INFO, ''TCP A: Plotted 1 points''), FINISHED, [(10, 20 + 281 / 1000, 30)])"
  by (simp add: tcp_visualize_execute_def tcp_visualize_a_execute_def demo_scene_def tcp_fs_def
      path_join_def startswith_def parse_tcp_positions_def Let_def py_strip_def is_space_def
      split_line_def split_ws_def dec_float_def is_digit_def digits_val_def str_nat.simps
      digit_chars)

text \<open>
  C8, as the code has it. When a TCP visualize action finishes, the file of the arm
  exists, every data line of it has at least 17 numeric fields, and the point computed for
  a line is the translation of the flattened 4x4 transform held by its 16 fields after the
  first, \<open>(m[3], m[7], m[11])\<close> in row-major and \<open>(m[12], m[13], m[14])\<close> in column-major
  mode, with the offset of the arm added to its second coordinate: \<open>0.281\<close> for arm A and
  \<open>-0.281\<close> for arm B. The markers are placed at every \<open>tcp_step\<close>-th of these points,
  at all of them when \<open>tcp_step\<close> is 1.
\<close>

theorem tcp_points_translation_with_offset:
  assumes "tcp_visualize_execute which flt fs sc = (rep, FINISHED, out)"
  shows "(\<exists>lines pts. fs (path_join (arm_folder which sc) (da_tcp_filename sc)) = Some lines \<and>
           list_all2 (tcp_point_of flt (da_delim sc) (tcp_column_major sc) (arm_y_offset which))
             (data_lines (sa_has_header sc) lines) pts \<and>
           out = (if 1 < tcp_step sc then every_nth (tcp_step sc) pts else pts)) \<and>
         translation False m = (m ! 3, m ! 7, m ! 11) \<and>
         translation True m = (m ! 12, m ! 13, m ! 14) \<and>
         arm_y_offset A = 281 / 1000 \<and> arm_y_offset B = - (281 / 1000)"
proof -
  have "\<exists>lines pts. fs (path_join (arm_folder which sc) (da_tcp_filename sc)) = Some lines \<and>
           list_all2 (tcp_point_of flt (da_delim sc) (tcp_column_major sc) (arm_y_offset which))
             (data_lines (sa_has_header sc) lines) pts \<and>
           out = (if 1 < tcp_step sc then every_nth (tcp_step sc) pts else pts)"
  proof (cases which)
    case A
    with assms have "tcp_visualize_a_execute flt fs sc = (rep, FINISHED, out)"
      by (simp add: tcp_visualize_execute_def)
    from tcp_visualize_a_points[OF this] A show ?thesis
      by (simp add: arm_folder_def arm_y_offset_def)
  next
    case B
    with assms have "tcp_visualize_b_execute flt fs sc = (rep, FINISHED, out)"
      by (simp add: tcp_visualize_execute_def)
    from tcp_visualize_b_points[OF this] B show ?thesis
      by (simp add: arm_folder_def arm_y_offset_def)
  qed
  then show ?thesis by (simp add: translation_def mat4_def arm_y_offset_def)
qed

theorem tcp_points_translation_with_offset_witness:
  "tcp_visualize_execute A dec_float tcp_fs demo_scene =
     ((INFO, ''TCP A: Plotted 1 points''), FINISHED, [(10, 20 + 281 / 1000, 30)]) \<and>
   (\<exists>lines pts. tcp_fs (path_join (arm_folder A demo_scene) (da_tcp_filename demo_scene)) =
        Some lines \<and>
      list_all2 (tcp_point_of dec_float (da_delim demo_scene) (tcp_column_major demo_scene)
                   (arm_y_offset A))
        (data_lines (sa_has_header demo_scene) lines) pts \<and>
      [(10, 20 + 281 / 1000, 30)] =
        (if 1 < tcp_step demo_scene then every_nth (tcp_step demo_scene) pts else pts))"
  using tcp_points_translation_with_offset[OF tcp_demo_run] tcp_demo_run by blast

text \<open>The claim as stated, the translation and nothing else: for the row-major line
  \<open>0 1 0 0 10 0 1 0 20 0 0 1 30 0 0 0 1\<close> the translation is \<open>(10, 20, 30)\<close>, and the action
  of arm A places its marker at \<open>(10, 20.281, 30)\<close>.\<close>

theorem tcp_point_counterexample:
  "numeric_fields dec_float AUTO ''0 1 0 0 10 0 1 0 20 0 0 1 30 0 0 0 1'' = Some tcp_row \<and>
   translation False (take 16 (drop 1 tcp_row)) = (10, 20, 30) \<and>
   snd (snd (tcp_visualize_execute A dec_float tcp_fs demo_scene)) =
     [(10, 20 + 281 / 1000, 30)] \<and>
   snd (snd (tcp_visualize_execute A dec_float tcp_fs demo_scene)) \<noteq>
     [translation False (take 16 (drop 1 tcp_row))]"
proof -
  have f: "numeric_fields dec_float AUTO ''0 1 0 0 10 0 1 0 20 0 0 1 30 0 0 0 1'' = Some tcp_row"
    by (simp add: numeric_fields_def tcp_row_def py_strip_def is_space_def split_line_def
        split_ws_def dec_float_def is_digit_def digits_val_def Let_def)
  have t: "translation False (take 16 (drop 1 tcp_row)) = (10, 20, 30)"
    by (simp add: translation_def mat4_def tcp_row_def)
  show ?thesis using f t by (simp add: tcp_demo_run)
qed

section \<open>Exporting a scene and importing it again\<close>

text \<open>
  C9, at two selections of one mesh object each. The object named \<open>b c\<close> is written as the
  block \<open>* b_c\<close> and read back as one entry with its position, quaternion and size. The
  object whose name is a single space is written as the block \<open>* \<close>; the importer strips
  every line before it looks for the prefix \<open>* \<close>, finds \<open>*\<close>, skips the block, and returns
  no entry at all, where the round trip of one object is to give one entry. The name
  \<open>cube\<close> the importer keeps for an empty name is never reached.
\<close>

theorem roundtrip_drops_blank_name:
  "roundtrip [mesh_named ''b c''] =
     Inr [\<lparr>e_name = ''b_c'', e_pos = [1 / 2, 2, - (13 / 4)], e_quat_xyzw = [0, 0, 0, 1],
            e_shape = ''box'', e_size = [2, 2, 1 / 8]\<rparr>] \<and>
   export_lines [mesh_named '' ''] =
     Inr [''(noname)+'', ''* '', ''0.500000 2.000000 -3.250000'',
          ''0.000000 0.000000 0.000000 1.000000'', ''1'', ''box'',
          ''2.000000 2.000000 0.125000'', ''0 0 0'', ''0 0 0 1'', ''0 0 0 0'', ''0'', ''.''] \<and>
   roundtrip [mesh_named '' ''] = Inr []"
  using named_roundtrip blank_export blank_roundtrip by simp

section \<open>Names of imported cubes\<close>

text \<open>
  C10. For every base name and every finite set of existing names, \<open>_unique_name\<close>
  returns, and the name it returns is not in the set; it is the base name itself whenever
  the base name is not in the set. Consequently an import over any list of entries,
  started from a finite set of object names, returns, and every cube it creates receives a
  name that is neither among the names existing at the start nor among the names of the
  cubes created before it.
\<close>

theorem unique_name_fresh:
  assumes "finite existing_names"
  shows "(\<exists>nm. unique_name base existing_names = Some nm \<and> nm \<notin> existing_names \<and>
               (base \<notin> existing_names \<longrightarrow> nm = base)) \<and>
         (\<exists>created names'. import_loop entries existing_names = Some (created, names') \<and>
               names' = existing_names \<union> set created \<and>
               (\<forall>k < length created.
                   created ! k \<notin> existing_names \<union> set (take k created)))"
  using unique_name_returns[OF assms, of base] import_loop_returns[OF assms, of entries]
  by blast

theorem unique_name_fresh_witness:
  "finite {''Cube'', ''Cube.001''} \<and>
   unique_name ''Cube'' {''Cube'', ''Cube.001''} = Some ''Cube.002'' \<and>
   ''Cube.002'' \<notin> {''Cube'', ''Cube.001''} \<and>
   (\<exists>nm. unique_name ''Cube'' {''Cube'', ''Cube.001''} = Some nm \<and>
         nm \<notin> {''Cube'', ''Cube.001''} \<and>
         (''Cube'' \<notin> {''Cube'', ''Cube.001''} \<longrightarrow> nm = ''Cube'')) \<and>
   (\<exists>created names'.
       import_loop [cube_entry, cube_entry] {''Cube'', ''Cube.001''} = Some (created, names') \<and>
       names' = {''Cube'', ''Cube.001''} \<union> set created \<and>
       (\<forall>k < length created.
           created ! k \<notin> {''Cube'', ''Cube.001''} \<union> set (take k created)))"
proof -
  have f: "finite {''Cube'', ''Cube.001''}" by simp
  from unique_name_fresh[OF f, of "''Cube''" "[cube_entry, cube_entry]"] cube_demo f
  show ?thesis by simp
qed

end
